theory Spec2Isabelle
  imports Complex_Main
begin

section \<open>Errors\<close>

text \<open>
  The exceptions that the code of \<^verbatim>\<open>crud.py\<close> and \<^verbatim>\<open>main.py\<close> raises or lets through.
  \<open>HTTPException\<close> carries the status code and the detail string; the others carry
  the message.
\<close>

datatype error =
    HTTPException nat string
  | IntegrityError string
  | TypeError string
  | AttributeError string
  | JWTError

section \<open>Schemas (\<^verbatim>\<open>schemas.py\<close>) and tables (\<^verbatim>\<open>models.py\<close>)\<close>

text \<open>
  Request bodies are the pydantic classes of \<^verbatim>\<open>schemas.py\<close>; table rows are the columns
  of the classes of \<^verbatim>\<open>models.py\<close>. Field names carry a prefix because the same name
  (\<open>id\<close>, \<open>email\<close>, \<open>book_id\<close>) occurs in several classes. Time stamps are seconds,
  as integers. \<open>amount\<close> is only stored and read back, never computed with.
\<close>

type_synonym timestamp = int

record UserCreate =
  uc_email :: string
  uc_username :: string
  uc_password :: string

record User_row =
  u_id :: int
  u_email :: string
  u_username :: string
  u_hashed_password :: string

record RecordCreate =
  rc_amount :: real
  rc_note :: "string option"
  rc_category_id :: int
  rc_book_id :: int
  rc_type :: int

text \<open>
  \<open>category_id\<close> and \<open>book_id\<close> of a stored record are nullable columns: deleting
  the category or the book that a record belongs to sets them to NULL (see \<open>delete_book\<close>).
\<close>

record Record_row =
  r_id :: int
  r_amount :: real
  r_note :: "string option"
  r_category_id :: "int option"
  r_book_id :: "int option"
  r_add_by :: int
  r_add_at :: timestamp

record CategoryCreate =
  cc_parent_id :: "int option"
  cc_icon :: int
  cc_cn_name :: string
  cc_en_name :: string

record Category_row =
  c_id :: int
  c_parent_id :: "int option"
  c_icon :: int
  c_cn_name :: string
  c_en_name :: string

record UserOut =
  uo_email :: string
  uo_username :: string
  uo_id :: int

record BookCreate =
  bc_name :: string
  bc_members :: "UserOut list"

record Book_row =
  b_id :: int
  b_name :: string

record UserBookCreate =
  ub_user_id :: int
  ub_book_id :: int

text \<open>
  The store behind a \<open>Session\<close>: the four tables and the join table \<open>user_book\<close> of
  \<^verbatim>\<open>models.py\<close>, each as the list of its rows in insertion order. The unique and
  primary-key constraints of \<^verbatim>\<open>models.py\<close> are checked where a row is inserted. Whether
  the engine also checks the declared foreign keys is a setting of \<^verbatim>\<open>database.py\<close>,
  which is not among the sources; the operations below do not check them, so that an
  insert or a delete never fails for a dangling reference.
\<close>

record db =
  users :: "User_row list"
  books :: "Book_row list"
  categories :: "Category_row list"
  records :: "Record_row list"
  user_book :: "(int \<times> int) list"

definition empty_db :: db where
  "empty_db = \<lparr>users = [], books = [], categories = [], records = [], user_book = []\<rparr>"

section \<open>The storage layer\<close>

text \<open>
  Modelled from the spec: the engine and session of \<^verbatim>\<open>database.py\<close>, which is not among
  the sources. "\<open>create\<close> assigns a new unique id": an integer primary key gets the
  largest stored id plus one (1 in an empty table).
\<close>

definition next_id :: "int list \<Rightarrow> int" where
  "next_id ids = fold max ids 0 + 1"

text \<open>
  Modelled from the spec: \<open>.offset(skip)\<close> and \<open>.limit(limit)\<close> of a query, run by the
  absent engine. "Out-of-range offset yields an empty sequence, never an error." The
  arguments are Python integers: a negative offset skips nothing and a negative limit
  does not bound the result.
\<close>

definition offset_q :: "int \<Rightarrow> 'a list \<Rightarrow> 'a list" where
  "offset_q skip xs = drop (nat skip) xs"

definition limit_q :: "int \<Rightarrow> 'a list \<Rightarrow> 'a list" where
  "limit_q limit xs = (if limit < 0 then xs else take (nat limit) xs)"

text \<open>
  The classes of \<^verbatim>\<open>models.py\<close> define no \<open>__init__\<close>: they are built by the default
  constructor of the declarative base, which takes keyword arguments and raises
  \<open>TypeError\<close> for a keyword that is not an attribute of the class. The attributes
  are the columns and relationships that \<^verbatim>\<open>models.py\<close> declares.
\<close>

definition declarative_init :: "string \<Rightarrow> string list \<Rightarrow> string list \<Rightarrow> error + unit" where
  "declarative_init cls attrs kwargs =
     (case filter (\<lambda>k. k \<notin> set attrs) kwargs of
        [] \<Rightarrow> Inr ()
      | k # _ \<Rightarrow> Inl (TypeError (k @ '' is an invalid keyword argument for '' @ cls)))"

definition User_attrs :: "string list" where
  "User_attrs = [''id'', ''email'', ''username'', ''hashed_password'', ''books'']"

definition Book_attrs :: "string list" where
  "Book_attrs = [''id'', ''name'', ''members'', ''records'']"

definition Record_attrs :: "string list" where
  "Record_attrs = [''id'', ''amount'', ''note'', ''category_id'', ''book_id'', ''add_by'',
     ''add_at'', ''book'', ''category'']"

definition Category_attrs :: "string list" where
  "Category_attrs = [''id'', ''parent_id'', ''icon'', ''cn_name'', ''en_name'', ''records'']"

text \<open>The keys of \<open>.dict()\<close> of each request body, in field order.\<close>

definition RecordCreate_keys :: "string list" where
  "RecordCreate_keys = [''amount'', ''note'', ''category_id'', ''book_id'', ''type_'']"

definition CategoryCreate_keys :: "string list" where
  "CategoryCreate_keys = [''parent_id'', ''icon'', ''cn_name'', ''en_name'']"

definition BookCreate_keys :: "string list" where
  "BookCreate_keys = [''name'', ''members'']"

section \<open>Users (\<^verbatim>\<open>crud.py\<close>)\<close>

text \<open>
  Every operation takes the store and returns its outcome together with the store
  after it: \<open>Inl e\<close> is the exception \<open>e\<close>, and a failed commit leaves the store as
  it was. \<open>.first()\<close> is the first matching row or \<open>None\<close>.
\<close>

definition get_user :: "db \<Rightarrow> int \<Rightarrow> User_row option" where
  "get_user d user_id = find (\<lambda>u. u_id u = user_id) (users d)"

definition get_user_by_email :: "db \<Rightarrow> string \<Rightarrow> User_row option" where
  "get_user_by_email d email = find (\<lambda>u. u_email u = email) (users d)"

definition get_user_by_username :: "db \<Rightarrow> string \<Rightarrow> User_row option" where
  "get_user_by_username d username = find (\<lambda>u. u_username u = username) (users d)"

definition get_users :: "db \<Rightarrow> int \<Rightarrow> int \<Rightarrow> User_row list" where
  "get_users d skip limit = limit_q limit (offset_q skip (users d))"

text \<open>
  \<open>verify_password\<close> and \<open>get_password_hash\<close> belong to \<^verbatim>\<open>auth.py\<close>, which is not among
  the sources: they are parameters.
\<close>

definition authenticate_user ::
  "(string \<Rightarrow> string \<Rightarrow> bool) \<Rightarrow> db \<Rightarrow> string \<Rightarrow> string \<Rightarrow> User_row option" where
  "authenticate_user verify_password d username password =
     (case get_user_by_username d username of
        None \<Rightarrow> None
      | Some user \<Rightarrow>
          if \<not> verify_password password (u_hashed_password user) then None else Some user)"

text \<open>
  \<open>db.add\<close> and \<open>db.commit\<close> of a user: the columns \<open>email\<close> and \<open>username\<close> are
  declared \<open>unique=True\<close> (\<^verbatim>\<open>models.py\<close>, lines 25 and 26), so the insert fails with
  \<open>IntegrityError\<close> when either value is already stored.
\<close>

definition insert_user :: "db \<Rightarrow> string \<Rightarrow> string \<Rightarrow> string \<Rightarrow> (error + User_row) \<times> db" where
  "insert_user d email username hashed =
     (if email \<in> set (map u_email (users d)) then
        (Inl (IntegrityError ''UNIQUE constraint failed: users.email''), d)
      else if username \<in> set (map u_username (users d)) then
        (Inl (IntegrityError ''UNIQUE constraint failed: users.username''), d)
      else
        (let row = \<lparr>u_id = next_id (map u_id (users d)), u_email = email,
                    u_username = username, u_hashed_password = hashed\<rparr>
         in (Inr row, d\<lparr>users := users d @ [row]\<rparr>)))"

definition create_user :: "(string \<Rightarrow> string) \<Rightarrow> db \<Rightarrow> UserCreate \<Rightarrow> (error + User_row) \<times> db" where
  "create_user get_password_hash d user =
     (case declarative_init ''User'' User_attrs [''email'', ''username'', ''hashed_password''] of
        Inl e \<Rightarrow> (Inl e, d)
      | Inr _ \<Rightarrow>
          insert_user d (uc_email user) (uc_username user) (get_password_hash (uc_password user)))"

text \<open>
  \<open>db.delete\<close> of a user: the row goes, and so do the rows of the join table that name
  the user, because \<open>User.books\<close> is a relationship through \<open>secondary=user_book\<close>
  (\<^verbatim>\<open>models.py\<close>, line 29).
\<close>

definition delete_user :: "db \<Rightarrow> int \<Rightarrow> (error + unit) \<times> db" where
  "delete_user d user_id =
     (case get_user d user_id of
        None \<Rightarrow> (Inr (), d)
      | Some db_user \<Rightarrow>
          (Inr (), d\<lparr>users := filter (\<lambda>u. u_id u \<noteq> u_id db_user) (users d),
                     user_book := filter (\<lambda>p. fst p \<noteq> u_id db_user) (user_book d)\<rparr>))"

text \<open>
  \<open>db_user.update(user.dict())\<close>: the classes of \<^verbatim>\<open>models.py\<close> define no method
  \<open>update\<close>, so the call raises \<open>AttributeError\<close> when the row exists. When it does
  not, the function falls off its end and returns \<open>None\<close>.
\<close>

definition update_user :: "db \<Rightarrow> int \<Rightarrow> UserCreate \<Rightarrow> (error + User_row option) \<times> db" where
  "update_user d user_id user =
     (case get_user d user_id of
        None \<Rightarrow> (Inr None, d)
      | Some db_user \<Rightarrow> (Inl (AttributeError ''User object has no attribute update''), d))"

section \<open>Records (\<^verbatim>\<open>crud.py\<close>)\<close>

definition get_record :: "db \<Rightarrow> int \<Rightarrow> Record_row option" where
  "get_record d record_id = find (\<lambda>r. r_id r = record_id) (records d)"

definition get_records :: "db \<Rightarrow> int \<Rightarrow> int \<Rightarrow> int \<Rightarrow> Record_row list" where
  "get_records d book_id skip limit =
     limit_q limit (offset_q skip (filter (\<lambda>r. r_book_id r = Some book_id) (records d)))"

text \<open>
  \<open>user_id\<close> is a required parameter: a call that passes none (\<open>None\<close> here) raises
  \<open>TypeError\<close> before the body runs. The body builds
  \<open>models.Record(**record.dict(), add_by=user_id, add_at=datetime.now())\<close>, and
  \<open>record.dict()\<close> has the key \<open>type_\<close> of \<open>RecordBase\<close>, which is no attribute of
  \<open>models.Record\<close>. \<open>now\<close> is the reading of the clock.
\<close>

definition create_user_record ::
  "db \<Rightarrow> RecordCreate \<Rightarrow> int option \<Rightarrow> timestamp \<Rightarrow> (error + Record_row) \<times> db" where
  "create_user_record d record user_id now =
     (case user_id of
        None \<Rightarrow>
          (Inl (TypeError
             ''create_user_record() missing 1 required positional argument: user_id''), d)
      | Some uid \<Rightarrow>
          (case declarative_init ''Record'' Record_attrs
                  (RecordCreate_keys @ [''add_by'', ''add_at'']) of
             Inl e \<Rightarrow> (Inl e, d)
           | Inr _ \<Rightarrow>
               (let row = \<lparr>r_id = next_id (map r_id (records d)),
                           r_amount = rc_amount record, r_note = rc_note record,
                           r_category_id = Some (rc_category_id record),
                           r_book_id = Some (rc_book_id record),
                           r_add_by = uid, r_add_at = now\<rparr>
                in (Inr row, d\<lparr>records := records d @ [row]\<rparr>))))"

definition delete_record :: "db \<Rightarrow> int \<Rightarrow> (error + unit) \<times> db" where
  "delete_record d record_id =
     (case get_record d record_id of
        None \<Rightarrow> (Inr (), d)
      | Some db_record \<Rightarrow>
          (Inr (), d\<lparr>records := filter (\<lambda>r. r_id r \<noteq> r_id db_record) (records d)\<rparr>))"

definition update_record :: "db \<Rightarrow> int \<Rightarrow> RecordCreate \<Rightarrow> (error + Record_row option) \<times> db" where
  "update_record d record_id record =
     (case get_record d record_id of
        None \<Rightarrow> (Inr None, d)
      | Some db_record \<Rightarrow> (Inl (AttributeError ''Record object has no attribute update''), d))"

section \<open>Categories (\<^verbatim>\<open>crud.py\<close>)\<close>

definition get_categories :: "db \<Rightarrow> int \<Rightarrow> int \<Rightarrow> Category_row list" where
  "get_categories d skip limit = limit_q limit (offset_q skip (categories d))"

definition get_category :: "db \<Rightarrow> int \<Rightarrow> Category_row option" where
  "get_category d category_id = find (\<lambda>c. c_id c = category_id) (categories d)"

definition create_category :: "db \<Rightarrow> CategoryCreate \<Rightarrow> (error + Category_row) \<times> db" where
  "create_category d category =
     (case declarative_init ''Category'' Category_attrs CategoryCreate_keys of
        Inl e \<Rightarrow> (Inl e, d)
      | Inr _ \<Rightarrow>
          (let row = \<lparr>c_id = next_id (map c_id (categories d)),
                      c_parent_id = cc_parent_id category, c_icon = cc_icon category,
                      c_cn_name = cc_cn_name category, c_en_name = cc_en_name category\<rparr>
           in (Inr row, d\<lparr>categories := categories d @ [row]\<rparr>)))"

text \<open>
  \<open>Category.records\<close> is a one-to-many relationship without a delete cascade
  (\<^verbatim>\<open>models.py\<close>, line 67): deleting the category sets \<open>category_id\<close> of its records to
  NULL and keeps the records.
\<close>

definition delete_category :: "db \<Rightarrow> int \<Rightarrow> (error + unit) \<times> db" where
  "delete_category d category_id =
     (case get_category d category_id of
        None \<Rightarrow> (Inr (), d)
      | Some db_category \<Rightarrow>
          (Inr (),
           d\<lparr>categories := filter (\<lambda>c. c_id c \<noteq> c_id db_category) (categories d),
             records := map (\<lambda>r. if r_category_id r = Some (c_id db_category)
                                   then r\<lparr>r_category_id := None\<rparr> else r) (records d)\<rparr>))"

definition update_category ::
  "db \<Rightarrow> int \<Rightarrow> CategoryCreate \<Rightarrow> (error + Category_row option) \<times> db" where
  "update_category d category_id category =
     (case get_category d category_id of
        None \<Rightarrow> (Inr None, d)
      | Some db_category \<Rightarrow>
          (Inl (AttributeError ''Category object has no attribute update''), d))"

section \<open>Books and memberships (\<^verbatim>\<open>crud.py\<close>)\<close>

definition get_books :: "db \<Rightarrow> int \<Rightarrow> int \<Rightarrow> Book_row list" where
  "get_books d skip limit = limit_q limit (offset_q skip (books d))"

definition get_book :: "db \<Rightarrow> int \<Rightarrow> Book_row option" where
  "get_book d book_id = find (\<lambda>b. b_id b = book_id) (books d)"

text \<open>
  \<open>models.Book(**book.dict())\<close> assigns \<open>members\<close>, a list of dictionaries, to the
  relationship \<open>Book.members\<close>, which holds mapped \<open>User\<close> objects: a dictionary in
  it raises \<open>AttributeError\<close>. The empty list is accepted.
\<close>

definition create_book :: "db \<Rightarrow> BookCreate \<Rightarrow> (error + Book_row) \<times> db" where
  "create_book d book =
     (case declarative_init ''Book'' Book_attrs BookCreate_keys of
        Inl e \<Rightarrow> (Inl e, d)
      | Inr _ \<Rightarrow>
          if bc_members book \<noteq> [] then
            (Inl (AttributeError ''dict object has no attribute _sa_instance_state''), d)
          else
            (let row = \<lparr>b_id = next_id (map b_id (books d)), b_name = bc_name book\<rparr>
             in (Inr row, d\<lparr>books := books d @ [row]\<rparr>)))"

definition update_book :: "db \<Rightarrow> int \<Rightarrow> BookCreate \<Rightarrow> (error + Book_row option) \<times> db" where
  "update_book d book_id book =
     (case get_book d book_id of
        None \<Rightarrow> (Inr None, d)
      | Some db_book \<Rightarrow> (Inl (AttributeError ''Book object has no attribute update''), d))"

text \<open>
  \<open>Book.members\<close> goes through \<open>secondary=user_book\<close> and \<open>Book.records\<close> is
  one-to-many without a delete cascade (\<^verbatim>\<open>models.py\<close>, lines 38 and 40): deleting a book
  removes its membership rows and sets \<open>book_id\<close> of its records to NULL.
\<close>

definition delete_book :: "db \<Rightarrow> int \<Rightarrow> (error + unit) \<times> db" where
  "delete_book d book_id =
     (case get_book d book_id of
        None \<Rightarrow> (Inr (), d)
      | Some db_book \<Rightarrow>
          (Inr (),
           d\<lparr>books := filter (\<lambda>b. b_id b \<noteq> b_id db_book) (books d),
             user_book := filter (\<lambda>p. snd p \<noteq> b_id db_book) (user_book d),
             records := map (\<lambda>r. if r_book_id r = Some (b_id db_book)
                                   then r\<lparr>r_book_id := None\<rparr> else r) (records d)\<rparr>))"

text \<open>
  The insert into the join table: \<open>user_id\<close> and \<open>book_id\<close> together are its primary
  key (\<^verbatim>\<open>models.py\<close>, lines 16 and 17), so a pair that is already stored fails with
  \<open>IntegrityError\<close>, which \<open>create_user_book\<close> does not catch.
\<close>

definition create_user_book :: "db \<Rightarrow> UserBookCreate \<Rightarrow> (error + UserBookCreate) \<times> db" where
  "create_user_book d ub =
     (if (ub_user_id ub, ub_book_id ub) \<in> set (user_book d) then
        (Inl (IntegrityError
           ''UNIQUE constraint failed: user_book.user_id, user_book.book_id''), d)
      else
        (Inr ub, d\<lparr>user_book := user_book d @ [(ub_user_id ub, ub_book_id ub)]\<rparr>))"

section \<open>Endpoints (\<^verbatim>\<open>main.py\<close>)\<close>

text \<open>
  \<open>POST /records\<close> calls \<open>crud.create_user_record(db=db, record=record)\<close>: no
  \<open>user_id\<close> is passed.
\<close>

definition main_create_record ::
  "db \<Rightarrow> RecordCreate \<Rightarrow> timestamp \<Rightarrow> (error + Record_row) \<times> db" where
  "main_create_record d record now = create_user_record d record None now"

definition main_create_user ::
  "(string \<Rightarrow> string) \<Rightarrow> db \<Rightarrow> UserCreate \<Rightarrow> (error + User_row) \<times> db" where
  "main_create_user get_password_hash d user =
     (case get_user_by_email d (uc_email user) of
        Some db_user \<Rightarrow> (Inl (HTTPException 400 ''Email already registered''), d)
      | None \<Rightarrow> create_user get_password_hash d user)"

section \<open>Bearer tokens\<close>

text \<open>
  Modelled from the spec: the token service of \<^verbatim>\<open>auth.py\<close> (\<open>create_access_token\<close>,
  \<open>SECRET_KEY\<close>, \<open>ALGORITHM\<close>) and the decoder it calls, none of which is among the
  sources. A token is "a signed, self-contained token encoding the subject and an
  absolute expiry timestamp", signed with "a symmetric secret". The signature is
  symbolic: it records the key and the claims it was made for, so that it verifies
  under a key exactly when it was made with that key for these claims. A string that
  does not parse as a token is \<open>Malformed\<close>.
\<close>

datatype claims = Claims (sub: "string option") (expiry: "timestamp option")

datatype mac = HMAC string claims

datatype token = Malformed | JWT claims mac

definition jwt_encode :: "string \<Rightarrow> claims \<Rightarrow> token" where
  "jwt_encode secret_key payload = JWT payload (HMAC secret_key payload)"

text \<open>
  Modelled from the spec: \<open>jwt.decode\<close>, which "fails if the signature does not verify,
  if the token is structurally malformed, or if the current time is past the encoded
  expiry".
\<close>

definition jwt_decode :: "string \<Rightarrow> timestamp \<Rightarrow> token \<Rightarrow> error + claims" where
  "jwt_decode secret_key now tok =
     (case tok of
        Malformed \<Rightarrow> Inl JWTError
      | JWT payload signature \<Rightarrow>
          if signature \<noteq> HMAC secret_key payload then Inl JWTError
          else (case expiry payload of
                  None \<Rightarrow> Inr payload
                | Some e \<Rightarrow> if e < now then Inl JWTError else Inr payload))"

text \<open>
  Modelled from the spec: \<open>create_access_token\<close> of \<^verbatim>\<open>auth.py\<close>, the spec's
  \<open>issue(subject, ttl)\<close>: the subject and the expiry \<open>now + ttl\<close>, signed.
\<close>

definition create_access_token :: "string \<Rightarrow> timestamp \<Rightarrow> string \<Rightarrow> int \<Rightarrow> token" where
  "create_access_token secret_key now subject expires_delta =
     jwt_encode secret_key (Claims (Some subject) (Some (now + expires_delta)))"

definition credentials_exception :: error where
  "credentials_exception = HTTPException 401 ''Could not validate credentials''"

text \<open>
  The \<open>try\<close> block of \<open>get_current_user\<close> (\<^verbatim>\<open>crud.py\<close>, lines 45 to 52): decode the
  token, read \<open>sub\<close>, and turn a \<open>JWTError\<close> or a missing subject into the 401.
\<close>

definition token_subject :: "string \<Rightarrow> timestamp \<Rightarrow> token \<Rightarrow> error + string" where
  "token_subject secret_key now tok =
     (case jwt_decode secret_key now tok of
        Inl e \<Rightarrow> Inl credentials_exception
      | Inr payload \<Rightarrow>
          (case sub payload of
             None \<Rightarrow> Inl credentials_exception
           | Some username \<Rightarrow> Inr username))"

definition get_current_user :: "string \<Rightarrow> timestamp \<Rightarrow> db \<Rightarrow> token \<Rightarrow> error + User_row" where
  "get_current_user secret_key now d tok =
     (case token_subject secret_key now tok of
        Inl e \<Rightarrow> Inl e
      | Inr username \<Rightarrow>
          (case get_user_by_username d username of
             None \<Rightarrow> Inl credentials_exception
           | Some user \<Rightarrow> Inr user))"

text \<open>
  \<open>POST /token\<close>: \<open>expire_minutes\<close> is \<open>ACCESS_TOKEN_EXPIRE_MINUTES\<close> of \<^verbatim>\<open>auth.py\<close>.
\<close>

definition login_for_access_token ::
  "(string \<Rightarrow> string \<Rightarrow> bool) \<Rightarrow> string \<Rightarrow> int \<Rightarrow> timestamp \<Rightarrow> db \<Rightarrow> string \<Rightarrow> string
     \<Rightarrow> error + token" where
  "login_for_access_token verify_password secret_key expire_minutes now d username password =
     (case authenticate_user verify_password d username password of
        None \<Rightarrow> Inl (HTTPException 401 ''Incorrect username or password'')
      | Some user \<Rightarrow>
          Inr (create_access_token secret_key now (u_username user) (expire_minutes * 60)))"

section \<open>Reachable stores\<close>

text \<open>
  The stores that the operations of \<^verbatim>\<open>crud.py\<close> and the two endpoints above can produce
  from the empty one. An operation that raises leaves the store as it was, so every
  call is a step, whatever its outcome.
\<close>

inductive reachable :: "db \<Rightarrow> bool" where
  r_init: "reachable empty_db"
| r_create_user: "reachable d \<Longrightarrow> reachable (snd (create_user h d user))"
| r_main_create_user: "reachable d \<Longrightarrow> reachable (snd (main_create_user h d user))"
| r_delete_user: "reachable d \<Longrightarrow> reachable (snd (delete_user d i))"
| r_update_user: "reachable d \<Longrightarrow> reachable (snd (update_user d i user))"
| r_create_user_record: "reachable d \<Longrightarrow> reachable (snd (create_user_record d r uid now))"
| r_delete_record: "reachable d \<Longrightarrow> reachable (snd (delete_record d i))"
| r_update_record: "reachable d \<Longrightarrow> reachable (snd (update_record d i r))"
| r_create_category: "reachable d \<Longrightarrow> reachable (snd (create_category d c))"
| r_delete_category: "reachable d \<Longrightarrow> reachable (snd (delete_category d i))"
| r_update_category: "reachable d \<Longrightarrow> reachable (snd (update_category d i c))"
| r_create_book: "reachable d \<Longrightarrow> reachable (snd (create_book d b))"
| r_update_book: "reachable d \<Longrightarrow> reachable (snd (update_book d i b))"
| r_delete_book: "reachable d \<Longrightarrow> reachable (snd (delete_book d i))"
| r_create_user_book: "reachable d \<Longrightarrow> reachable (snd (create_user_book d ub))"

section \<open>Example data\<close>

text \<open>
  A store with the two predefined users, the predefined book, its memberships, one
  category and three records, and the request body \<open>{amount: 100, category_id: 1,
  book_id: 1}\<close> with the defaults of \<open>RecordBase\<close>. \<open>sample_hash\<close> stands in for a
  password hash function.
\<close>

definition sample_hash :: "string \<Rightarrow> string" where
  "sample_hash password = ''hashed:'' @ password"

definition sample_db :: db where
  "sample_db =
     \<lparr>users =
        [\<lparr>u_id = 1, u_email = ''admin@126.com'', u_username = ''admin'',
          u_hashed_password = sample_hash ''admin''\<rparr>,
         \<lparr>u_id = 2, u_email = ''test@126.com'', u_username = ''test'',
          u_hashed_password = sample_hash ''test''\<rparr>],
      books = [\<lparr>b_id = 1, b_name = ''default''\<rparr>],
      categories =
        [\<lparr>c_id = 1, c_parent_id = None, c_icon = 1, c_cn_name = ''Shop'',
          c_en_name = ''Shop''\<rparr>],
      records =
        [\<lparr>r_id = 1, r_amount = 100, r_note = Some ''test'', r_category_id = Some 1,
          r_book_id = Some 1, r_add_by = 1, r_add_at = 1700000000\<rparr>,
         \<lparr>r_id = 2, r_amount = 20, r_note = None, r_category_id = Some 1,
          r_book_id = Some 2, r_add_by = 1, r_add_at = 1700000060\<rparr>,
         \<lparr>r_id = 3, r_amount = 70, r_note = None, r_category_id = None,
          r_book_id = Some 1, r_add_by = 2, r_add_at = 1700000120\<rparr>],
      user_book = [(1, 1), (2, 1)]\<rparr>"

definition sample_record :: RecordCreate where
  "sample_record =
     \<lparr>rc_amount = 100, rc_note = None, rc_category_id = 1, rc_book_id = 1, rc_type = 1\<rparr>"

section \<open>The invariant of the store\<close>

text \<open>
  The uniqueness constraints that \<^verbatim>\<open>models.py\<close> declares: \<open>unique=True\<close> on
  \<open>User.email\<close> and \<open>User.username\<close>, and the composite primary key of \<open>user_book\<close>.
\<close>

definition store_inv :: "db \<Rightarrow> bool" where
  "store_inv d \<longleftrightarrow> distinct (map u_email (users d)) \<and> distinct (map u_username (users d))
      \<and> distinct (user_book d)"

section \<open>Auxiliary facts\<close>

lemma fold_max_ge: "(a::int) \<le> fold max ids a"
  by (induction ids arbitrary: a) (auto intro: order_trans [OF max.cobounded2])

lemma fold_max_mem: "(i::int) \<in> set ids \<Longrightarrow> i \<le> fold max ids a"
proof (induction ids arbitrary: a)
  case Nil then show ?case by simp
next
  case (Cons x xs)
  show ?case
  proof (cases "i = x")
    case True
    have "x \<le> max x a" by simp
    also have "\<dots> \<le> fold max xs (max x a)" by (rule fold_max_ge)
    finally show ?thesis using True by simp
  next
    case False
    with Cons.prems have "i \<in> set xs" by simp
    then show ?thesis using Cons.IH by simp
  qed
qed

lemma next_id_fresh: "next_id ids \<notin> set ids"
  using fold_max_mem [of "next_id ids" ids 0] by (auto simp: next_id_def)

lemma init_User: "declarative_init ''User'' User_attrs [''email'', ''username'', ''hashed_password''] = Inr ()"
  by (simp add: declarative_init_def User_attrs_def)

lemma init_Category: "declarative_init ''Category'' Category_attrs CategoryCreate_keys = Inr ()"
  by (simp add: declarative_init_def Category_attrs_def CategoryCreate_keys_def)

lemma init_Book: "declarative_init ''Book'' Book_attrs BookCreate_keys = Inr ()"
  by (simp add: declarative_init_def Book_attrs_def BookCreate_keys_def)

lemma init_Record: "declarative_init ''Record'' Record_attrs (RecordCreate_keys @ [''add_by'', ''add_at''])
   = Inl (TypeError ''type_ is an invalid keyword argument for Record'')"
  by (simp add: declarative_init_def Record_attrs_def RecordCreate_keys_def)

lemma create_user_record_raises: "\<exists>e. create_user_record d r uid now = (Inl e, d)"
  by (simp add: create_user_record_def init_Record split: option.split)


lemma store_inv_reachable: "reachable d \<Longrightarrow> store_inv d"
proof (induction rule: reachable.induct)
  case r_init
  then show ?case by (simp add: store_inv_def empty_db_def)
next
  case (r_create_user d h user)
  then show ?case by (auto simp: store_inv_def create_user_def init_User insert_user_def Let_def)
next
  case (r_main_create_user d h user)
  then show ?case by (auto simp: store_inv_def main_create_user_def create_user_def init_User insert_user_def Let_def split: option.split)
next
  case (r_delete_user d i)
  then show ?case by (auto simp: store_inv_def delete_user_def distinct_map_filter split: option.split)
next
  case (r_update_user d i user)
  then show ?case by (auto simp: update_user_def split: option.split)
next
  case (r_create_user_record d r uid now)
  then show ?case using create_user_record_raises [of d r uid now] by auto
next
  case (r_delete_record d i)
  then show ?case by (auto simp: store_inv_def delete_record_def split: option.split)
next
  case (r_update_record d i r)
  then show ?case by (auto simp: update_record_def split: option.split)
next
  case (r_create_category d c)
  then show ?case by (auto simp: store_inv_def create_category_def init_Category Let_def)
next
  case (r_delete_category d i)
  then show ?case by (auto simp: store_inv_def delete_category_def split: option.split)
next
  case (r_update_category d i c)
  then show ?case by (auto simp: update_category_def split: option.split)
next
  case (r_create_book d b)
  then show ?case by (auto simp: store_inv_def create_book_def init_Book Let_def)
next
  case (r_update_book d i b)
  then show ?case by (auto simp: update_book_def split: option.split)
next
  case (r_delete_book d i)
  then show ?case by (auto simp: store_inv_def delete_book_def split: option.split)
next
  case (r_create_user_book d ub)
  then show ?case by (auto simp: store_inv_def create_user_book_def)
qed

lemma mem_map_iff: "k \<in> set (map f xs) \<longleftrightarrow> (\<exists>x\<in>set xs. f x = k)"
  by (induction xs) auto

lemma find_fresh_append: "\<not> (\<exists>x\<in>set xs. P x) \<Longrightarrow> P y \<Longrightarrow> find P (xs @ [y]) = Some y"
  by (induction xs) auto

lemma find_Some_key: "find (\<lambda>x. f x = i) xs = Some y \<Longrightarrow> f y = i"
  by (auto simp: find_Some_iff)

lemma find_filter_removed: "find (\<lambda>x. f x = i) (filter (\<lambda>x. f x \<noteq> i) xs) = None"
  by (simp add: find_None_iff)

lemma delete_user_removes: "get_user (snd (delete_user d i)) i = None"
  by (auto simp: delete_user_def get_user_def find_filter_removed
      split: option.split dest: find_Some_key)

lemma delete_record_removes: "get_record (snd (delete_record d i)) i = None"
  by (auto simp: delete_record_def get_record_def find_filter_removed
      split: option.split dest: find_Some_key)

lemma delete_category_removes: "get_category (snd (delete_category d i)) i = None"
  by (auto simp: delete_category_def get_category_def find_filter_removed
      split: option.split dest: find_Some_key)

lemma delete_book_removes: "get_book (snd (delete_book d i)) i = None"
  by (auto simp: delete_book_def get_book_def find_filter_removed
      split: option.split dest: find_Some_key)

lemma delete_user_missing: "get_user d i = None \<Longrightarrow> delete_user d i = (Inr (), d)"
  by (simp add: delete_user_def)

lemma delete_record_missing: "get_record d i = None \<Longrightarrow> delete_record d i = (Inr (), d)"
  by (simp add: delete_record_def)

lemma delete_category_missing:
  "get_category d i = None \<Longrightarrow> delete_category d i = (Inr (), d)"
  by (simp add: delete_category_def)

lemma delete_book_missing: "get_book d i = None \<Longrightarrow> delete_book d i = (Inr (), d)"
  by (simp add: delete_book_def)

lemma set_limit_q: "set (limit_q limit xs) \<subseteq> set xs"
  by (simp add: limit_q_def set_take_subset)

lemma set_offset_q: "set (offset_q skip xs) \<subseteq> set xs"
  by (simp add: offset_q_def set_drop_subset)

section \<open>Creating a record\<close>

text \<open>
  C1. \<open>POST /records\<close> with \<open>{amount: 100, category_id: 1, book_id: 1}\<close> should
  answer with the stored record and its \<open>id\<close>, \<open>add_by\<close> and \<open>add_at\<close>. The code
  raises instead and stores nothing: the endpoint calls \<open>create_user_record\<close> without
  \<open>user_id\<close>, and \<open>create_user_record\<close> itself, called with a user id, raises on the
  keyword \<open>type_\<close>.
\<close>

theorem post_record_raises:
  "main_create_record sample_db sample_record 1700000200 =
     (Inl (TypeError ''create_user_record() missing 1 required positional argument: user_id''),
      sample_db)
   \<and> create_user_record sample_db sample_record (Some 1) 1700000200 =
     (Inl (TypeError ''type_ is an invalid keyword argument for Record''), sample_db)"
  by (simp add: main_create_record_def create_user_record_def init_Record)

section \<open>Tokens\<close>

text \<open>
  C3. A token issued for subject \<open>u\<close> at time \<open>now\<close> with \<open>ttl > 0\<close> resolves to
  \<open>u\<close> at every time up to \<open>now + ttl\<close> and is refused at every later time; and a
  token refused at one time is refused at every later time, so that no token becomes
  valid again.
\<close>

theorem token_valid_until_expiry:
  "0 < ttl \<Longrightarrow>
     (t \<le> now + ttl \<longrightarrow> token_subject k t (create_access_token k now u ttl) = Inr u)
   \<and> (now + ttl < t \<longrightarrow>
        token_subject k t (create_access_token k now u ttl) = Inl credentials_exception)
   \<and> (token_subject k ta tok = Inl credentials_exception \<and> ta \<le> tb \<longrightarrow>
        token_subject k tb tok = Inl credentials_exception)"
  by (auto simp: token_subject_def create_access_token_def jwt_encode_def jwt_decode_def
      split: token.splits option.splits if_splits sum.splits)

theorem token_valid_until_expiry_witness:
  "token_subject ''secret'' 2000 (create_access_token ''secret'' 1000 ''admin'' 1800)
     = Inr ''admin''
   \<and> token_subject ''secret'' 2801 (create_access_token ''secret'' 1000 ''admin'' 1800)
     = Inl credentials_exception
   \<and> token_subject ''secret'' 5000 (create_access_token ''secret'' 1000 ''admin'' 1800)
     = Inl credentials_exception"
  using token_valid_until_expiry [where ttl = 1800 and t = 2000 and now = 1000
      and k = "''secret''" and u = "''admin''" and ta = 2801 and tb = 5000
      and tok = "create_access_token ''secret'' 1000 ''admin'' 1800"]
    token_valid_until_expiry [where ttl = 1800 and t = 2801 and now = 1000
      and k = "''secret''" and u = "''admin''" and ta = 2801 and tb = 5000
      and tok = "create_access_token ''secret'' 1000 ''admin'' 1800"]
  by simp

text \<open>
  C4. \<open>get_current_user\<close> answers 401 exactly when the token is malformed, or its
  signature does not verify under the secret, or it has no subject, or its expiry is
  past, or no user has the subject as username; in every other case it returns the
  user with that username. A token signed with another secret is refused.
\<close>

theorem get_current_user_unauthorized_iff:
  "(get_current_user k now d tok = Inl credentials_exception \<longleftrightarrow>
      tok = Malformed
      \<or> (\<exists>p s. tok = JWT p s
            \<and> (s \<noteq> HMAC k p
               \<or> sub p = None
               \<or> (\<exists>e. expiry p = Some e \<and> e < now)
               \<or> (\<exists>u. sub p = Some u \<and> get_user_by_username d u = None))))
   \<and> (get_current_user k now d tok \<noteq> Inl credentials_exception \<longrightarrow>
        (\<exists>p u user. tok = JWT p (HMAC k p) \<and> sub p = Some u
           \<and> get_user_by_username d u = Some user
           \<and> get_current_user k now d tok = Inr user))
   \<and> (k' \<noteq> k \<longrightarrow> get_current_user k now d (jwt_encode k' p') = Inl credentials_exception)"
  by (auto simp: get_current_user_def token_subject_def jwt_encode_def jwt_decode_def
      split: token.splits option.splits if_splits sum.splits)

theorem get_current_user_unauthorized_iff_witness:
  "get_current_user ''secret'' 2000 sample_db
      (jwt_encode ''other'' (Claims (Some ''admin'') (Some 2800)))
     = Inl credentials_exception
   \<and> get_current_user ''secret'' 2000 sample_db
      (jwt_encode ''secret'' (Claims (Some ''admin'') (Some 2800)))
     = Inr \<lparr>u_id = 1, u_email = ''admin@126.com'', u_username = ''admin'',
            u_hashed_password = sample_hash ''admin''\<rparr>"
  using get_current_user_unauthorized_iff [where k = "''secret''" and k' = "''other''"
      and now = 2000 and d = sample_db and p' = "Claims (Some ''admin'') (Some 2800)"
      and tok = "jwt_encode ''secret'' (Claims (Some ''admin'') (Some 2800))"]
  by (simp add: jwt_encode_def get_user_by_username_def sample_db_def)

section \<open>Creating users\<close>

text \<open>
  C5. The claim says that creating a user with a fresh email succeeds. With a fresh
  email and the username of a stored user, the unique constraint on \<open>username\<close>
  makes the insert fail.
\<close>

theorem create_user_fresh_email_taken_username:
  "get_user_by_email sample_db ''new@126.com'' = None
   \<and> main_create_user sample_hash sample_db
        \<lparr>uc_email = ''new@126.com'', uc_username = ''admin'', uc_password = ''secret''\<rparr>
      = (Inl (IntegrityError ''UNIQUE constraint failed: users.username''), sample_db)"
  by (simp add: main_create_user_def create_user_def init_User insert_user_def
      get_user_by_email_def sample_db_def)

text \<open>
  C5, amended. \<open>POST /users\<close> with a stored email answers 400 and leaves the store
  as it was; with a fresh email and a stored username it fails with \<open>IntegrityError\<close>
  and leaves the store as it was; with a fresh email and a fresh username it appends
  one user, under an id that no stored user has, and \<open>get_user\<close> by that id and
  \<open>get_user_by_email\<close> by that email both return it.
\<close>

theorem main_create_user_outcomes:
  "(get_user_by_email d (uc_email user) \<noteq> None \<longrightarrow>
      main_create_user h d user = (Inl (HTTPException 400 ''Email already registered''), d))
   \<and> (get_user_by_email d (uc_email user) = None
        \<and> get_user_by_username d (uc_username user) \<noteq> None \<longrightarrow>
      main_create_user h d user
        = (Inl (IntegrityError ''UNIQUE constraint failed: users.username''), d))
   \<and> (get_user_by_email d (uc_email user) = None
        \<and> get_user_by_username d (uc_username user) = None \<longrightarrow>
      (\<exists>row. main_create_user h d user = (Inr row, d\<lparr>users := users d @ [row]\<rparr>)
         \<and> u_email row = uc_email user \<and> u_username row = uc_username user
         \<and> u_id row \<notin> set (map u_id (users d))
         \<and> get_user (snd (main_create_user h d user)) (u_id row) = Some row
         \<and> get_user_by_email (snd (main_create_user h d user)) (uc_email user) = Some row))"
proof (intro conjI impI)
  assume "get_user_by_email d (uc_email user) \<noteq> None"
  then show "main_create_user h d user
      = (Inl (HTTPException 400 ''Email already registered''), d)"
    by (auto simp: main_create_user_def)
next
  assume a: "get_user_by_email d (uc_email user) = None
      \<and> get_user_by_username d (uc_username user) \<noteq> None"
  then have e: "uc_email user \<notin> set (map u_email (users d))"
    unfolding mem_map_iff by (auto simp: get_user_by_email_def find_None_iff)
  from a obtain x where "x \<in> set (users d)" and "u_username x = uc_username user"
    by (auto simp: get_user_by_username_def find_None_iff)
  then have n: "uc_username user \<in> set (map u_username (users d))"
    unfolding mem_map_iff by blast
  from a e n show "main_create_user h d user
      = (Inl (IntegrityError ''UNIQUE constraint failed: users.username''), d)"
    by (simp add: main_create_user_def create_user_def init_User insert_user_def)
next
  assume a: "get_user_by_email d (uc_email user) = None
      \<and> get_user_by_username d (uc_username user) = None"
  define row where "row = \<lparr>u_id = next_id (map u_id (users d)), u_email = uc_email user,
      u_username = uc_username user, u_hashed_password = h (uc_password user)\<rparr>"
  from a have e: "\<not> (\<exists>x\<in>set (users d). u_email x = uc_email user)"
    by (auto simp: get_user_by_email_def find_None_iff)
  from a have n: "\<not> (\<exists>x\<in>set (users d). u_username x = uc_username user)"
    by (auto simp: get_user_by_username_def find_None_iff)
  have i: "\<not> (\<exists>x\<in>set (users d). u_id x = u_id row)"
    using next_id_fresh [of "map u_id (users d)"] unfolding mem_map_iff by (simp add: row_def)
  have r: "main_create_user h d user = (Inr row, d\<lparr>users := users d @ [row]\<rparr>)"
    using a e n by (simp add: main_create_user_def create_user_def init_User insert_user_def
        row_def Let_def mem_map_iff del: set_map)
  have g1: "get_user (d\<lparr>users := users d @ [row]\<rparr>) (u_id row) = Some row"
    using find_fresh_append [OF i] by (simp add: get_user_def)
  have g2: "get_user_by_email (d\<lparr>users := users d @ [row]\<rparr>) (uc_email user) = Some row"
    using find_fresh_append [OF e, of row] by (simp add: get_user_by_email_def row_def)
  have "main_create_user h d user = (Inr row, d\<lparr>users := users d @ [row]\<rparr>)
         \<and> u_email row = uc_email user \<and> u_username row = uc_username user
         \<and> u_id row \<notin> set (map u_id (users d))
         \<and> get_user (snd (main_create_user h d user)) (u_id row) = Some row
         \<and> get_user_by_email (snd (main_create_user h d user)) (uc_email user) = Some row"
    using r g1 g2 i by (simp add: row_def mem_map_iff del: set_map)
  then show "\<exists>row. main_create_user h d user = (Inr row, d\<lparr>users := users d @ [row]\<rparr>)
         \<and> u_email row = uc_email user \<and> u_username row = uc_username user
         \<and> u_id row \<notin> set (map u_id (users d))
         \<and> get_user (snd (main_create_user h d user)) (u_id row) = Some row
         \<and> get_user_by_email (snd (main_create_user h d user)) (uc_email user) = Some row"
    by (rule exI)
qed

theorem main_create_user_outcomes_witness:
  "main_create_user sample_hash sample_db
      \<lparr>uc_email = ''admin@126.com'', uc_username = ''root'', uc_password = ''secret''\<rparr>
     = (Inl (HTTPException 400 ''Email already registered''), sample_db)
   \<and> main_create_user sample_hash sample_db
      \<lparr>uc_email = ''root@126.com'', uc_username = ''admin'', uc_password = ''secret''\<rparr>
     = (Inl (IntegrityError ''UNIQUE constraint failed: users.username''), sample_db)
   \<and> get_user_by_email (snd (main_create_user sample_hash sample_db
        \<lparr>uc_email = ''root@126.com'', uc_username = ''root'', uc_password = ''secret''\<rparr>))
      ''root@126.com'' \<noteq> None"
proof -
  have e: "get_user_by_email sample_db ''admin@126.com'' \<noteq> None"
    and f: "get_user_by_email sample_db ''root@126.com'' = None"
    by (simp_all add: get_user_by_email_def sample_db_def)
  have n: "get_user_by_username sample_db ''admin'' \<noteq> None"
    and m: "get_user_by_username sample_db ''root'' = None"
    by (simp_all add: get_user_by_username_def sample_db_def)
  show ?thesis
    using e f n m
      main_create_user_outcomes [of sample_db
        "\<lparr>uc_email = ''admin@126.com'', uc_username = ''root'', uc_password = ''secret''\<rparr>"
        sample_hash]
      main_create_user_outcomes [of sample_db
        "\<lparr>uc_email = ''root@126.com'', uc_username = ''admin'', uc_password = ''secret''\<rparr>"
        sample_hash]
      main_create_user_outcomes [of sample_db
        "\<lparr>uc_email = ''root@126.com'', uc_username = ''root'', uc_password = ''secret''\<rparr>"
        sample_hash]
    by auto
qed

text \<open>
  C6. In every reachable store no two users share an email and no two share a
  username; \<open>crud.create_user\<close> and \<open>POST /users\<close> both fail, leaving the store as
  it was, on a request whose email or username is already stored.
\<close>

theorem users_unique:
  "reachable d \<Longrightarrow>
     distinct (map u_email (users d)) \<and> distinct (map u_username (users d))
     \<and> (uc_email user \<in> set (map u_email (users d))
          \<or> uc_username user \<in> set (map u_username (users d)) \<longrightarrow>
        (\<exists>m. create_user h d user = (Inl (IntegrityError m), d))
        \<and> (\<exists>e. main_create_user h d user = (Inl e, d)))"
proof -
  assume "reachable d"
  then have "store_inv d" by (rule store_inv_reachable)
  then have u: "distinct (map u_email (users d)) \<and> distinct (map u_username (users d))"
    by (simp add: store_inv_def)
  have c: "uc_email user \<in> set (map u_email (users d))
          \<or> uc_username user \<in> set (map u_username (users d)) \<Longrightarrow>
        \<exists>m. create_user h d user = (Inl (IntegrityError m), d)"
    by (auto simp: create_user_def init_User insert_user_def)
  have m: "uc_email user \<in> set (map u_email (users d))
          \<or> uc_username user \<in> set (map u_username (users d)) \<Longrightarrow>
        \<exists>e. main_create_user h d user = (Inl e, d)"
    using c by (auto simp: main_create_user_def split: option.split)
  from u c m show ?thesis by blast
qed

theorem users_unique_witness:
  "reachable (snd (create_user sample_hash empty_db
      \<lparr>uc_email = ''admin@126.com'', uc_username = ''admin'', uc_password = ''admin''\<rparr>))
   \<and> (\<exists>m. create_user sample_hash (snd (create_user sample_hash empty_db
      \<lparr>uc_email = ''admin@126.com'', uc_username = ''admin'', uc_password = ''admin''\<rparr>))
      \<lparr>uc_email = ''other@126.com'', uc_username = ''admin'', uc_password = ''secret''\<rparr>
     = (Inl (IntegrityError m), snd (create_user sample_hash empty_db
      \<lparr>uc_email = ''admin@126.com'', uc_username = ''admin'', uc_password = ''admin''\<rparr>)))"
proof -
  let ?d = "snd (create_user sample_hash empty_db
      \<lparr>uc_email = ''admin@126.com'', uc_username = ''admin'', uc_password = ''admin''\<rparr>)"
  have r: "reachable ?d"
    by (rule r_create_user [OF r_init])
  have u: "users ?d = [\<lparr>u_id = 1, u_email = ''admin@126.com'', u_username = ''admin'',
      u_hashed_password = sample_hash ''admin''\<rparr>]"
    by (simp add: create_user_def init_User insert_user_def empty_db_def next_id_def Let_def)
  show ?thesis
    using r users_unique [OF r, of
        "\<lparr>uc_email = ''other@126.com'', uc_username = ''admin'', uc_password = ''secret''\<rparr>"
        sample_hash]
    by (simp add: u)
qed

section \<open>Update and delete\<close>

text \<open>
  C7. For users, records, categories and books: \<open>update\<close> with an id that matches
  no row returns \<open>None\<close> and leaves the store as it was, and \<open>None\<close> is returned
  in no other case.
\<close>

theorem update_missing_id:
  "(get_user d i = None \<longrightarrow> update_user d i u = (Inr None, d))
   \<and> (get_record d i = None \<longrightarrow> update_record d i r = (Inr None, d))
   \<and> (get_category d i = None \<longrightarrow> update_category d i c = (Inr None, d))
   \<and> (get_book d i = None \<longrightarrow> update_book d i b = (Inr None, d))
   \<and> (fst (update_user d i u) = Inr None \<longleftrightarrow> get_user d i = None)
   \<and> (fst (update_record d i r) = Inr None \<longleftrightarrow> get_record d i = None)
   \<and> (fst (update_category d i c) = Inr None \<longleftrightarrow> get_category d i = None)
   \<and> (fst (update_book d i b) = Inr None \<longleftrightarrow> get_book d i = None)"
  by (simp add: update_user_def update_record_def update_category_def update_book_def
      split: option.split)

theorem update_missing_id_witness:
  "get_record sample_db 9 = None
   \<and> update_record sample_db 9 sample_record = (Inr None, sample_db)
   \<and> get_user sample_db 9 = None
   \<and> update_user sample_db 9
        \<lparr>uc_email = ''a@126.com'', uc_username = ''a'', uc_password = ''a''\<rparr>
      = (Inr None, sample_db)"
  using update_missing_id [where d = sample_db and i = 9 and r = sample_record
      and u = "\<lparr>uc_email = ''a@126.com'', uc_username = ''a'', uc_password = ''a''\<rparr>"]
  by (simp add: get_record_def get_user_def sample_db_def)

text \<open>
  C8. For users, records, categories and books: \<open>delete\<close> raises nothing; after it
  no row has the id; on an id that matches no row it leaves the store as it was; and a
  second \<open>delete\<close> of the same id changes nothing.
\<close>

theorem delete_idempotent:
  "(fst (delete_user d i) = Inr () \<and> get_user (snd (delete_user d i)) i = None
      \<and> (get_user d i = None \<longrightarrow> delete_user d i = (Inr (), d))
      \<and> delete_user (snd (delete_user d i)) i = (Inr (), snd (delete_user d i)))
   \<and> (fst (delete_record d i) = Inr () \<and> get_record (snd (delete_record d i)) i = None
      \<and> (get_record d i = None \<longrightarrow> delete_record d i = (Inr (), d))
      \<and> delete_record (snd (delete_record d i)) i = (Inr (), snd (delete_record d i)))
   \<and> (fst (delete_category d i) = Inr ()
      \<and> get_category (snd (delete_category d i)) i = None
      \<and> (get_category d i = None \<longrightarrow> delete_category d i = (Inr (), d))
      \<and> delete_category (snd (delete_category d i)) i
          = (Inr (), snd (delete_category d i)))
   \<and> (fst (delete_book d i) = Inr () \<and> get_book (snd (delete_book d i)) i = None
      \<and> (get_book d i = None \<longrightarrow> delete_book d i = (Inr (), d))
      \<and> delete_book (snd (delete_book d i)) i = (Inr (), snd (delete_book d i)))"
proof -
  have u: "fst (delete_user d i) = Inr ()"
    by (simp add: delete_user_def split: option.split)
  have r: "fst (delete_record d i) = Inr ()"
    by (simp add: delete_record_def split: option.split)
  have c: "fst (delete_category d i) = Inr ()"
    by (simp add: delete_category_def split: option.split)
  have b: "fst (delete_book d i) = Inr ()"
    by (simp add: delete_book_def split: option.split)
  show ?thesis
    using u r c b
      delete_user_removes [of d i] delete_user_missing [OF delete_user_removes [of d i]]
      delete_record_removes [of d i] delete_record_missing [OF delete_record_removes [of d i]]
      delete_category_removes [of d i]
      delete_category_missing [OF delete_category_removes [of d i]]
      delete_book_removes [of d i] delete_book_missing [OF delete_book_removes [of d i]]
      delete_user_missing [of d i] delete_record_missing [of d i]
      delete_category_missing [of d i] delete_book_missing [of d i]
    by blast
qed

theorem delete_idempotent_witness:
  "get_user sample_db 2 \<noteq> None \<and> get_user (snd (delete_user sample_db 2)) 2 = None
   \<and> delete_user (snd (delete_user sample_db 2)) 2 = (Inr (), snd (delete_user sample_db 2))
   \<and> get_record sample_db 7 = None \<and> delete_record sample_db 7 = (Inr (), sample_db)
   \<and> get_book sample_db 1 \<noteq> None \<and> get_book (snd (delete_book sample_db 1)) 1 = None
   \<and> get_category sample_db 4 = None
   \<and> delete_category sample_db 4 = (Inr (), sample_db)"
  using delete_idempotent [of sample_db 2] delete_idempotent [of sample_db 7]
    delete_idempotent [of sample_db 1] delete_idempotent [of sample_db 4]
  by (simp add: get_user_def get_record_def get_book_def get_category_def sample_db_def)

section \<open>Memberships\<close>

text \<open>
  C9. \<open>create_user_book\<close> fails with \<open>IntegrityError\<close>, leaving the store as it
  was, on a pair that is already stored; it appends any other pair; and in every
  reachable store the pairs are distinct.
\<close>

theorem membership_unique:
  "((ub_user_id ub, ub_book_id ub) \<in> set (user_book d) \<longrightarrow>
       (\<exists>m. create_user_book d ub = (Inl (IntegrityError m), d)))
   \<and> ((ub_user_id ub, ub_book_id ub) \<notin> set (user_book d) \<longrightarrow>
       create_user_book d ub
         = (Inr ub, d\<lparr>user_book := user_book d @ [(ub_user_id ub, ub_book_id ub)]\<rparr>))
   \<and> (reachable d \<longrightarrow> distinct (user_book d))"
  using store_inv_reachable [of d] by (simp add: create_user_book_def store_inv_def)

theorem membership_unique_witness:
  "(\<exists>m. create_user_book sample_db \<lparr>ub_user_id = 1, ub_book_id = 1\<rparr>
      = (Inl (IntegrityError m), sample_db))
   \<and> user_book (snd (create_user_book empty_db \<lparr>ub_user_id = 1, ub_book_id = 1\<rparr>))
      = [(1, 1)]
   \<and> reachable (snd (create_user_book empty_db \<lparr>ub_user_id = 1, ub_book_id = 1\<rparr>))
   \<and> distinct (user_book (snd (create_user_book empty_db
        \<lparr>ub_user_id = 1, ub_book_id = 1\<rparr>)))"
proof -
  have r: "reachable (snd (create_user_book empty_db \<lparr>ub_user_id = 1, ub_book_id = 1\<rparr>))"
    by (rule r_create_user_book [OF r_init])
  show ?thesis
    using r membership_unique [of "\<lparr>ub_user_id = 1, ub_book_id = 1\<rparr>" sample_db]
      membership_unique [of "\<lparr>ub_user_id = 1, ub_book_id = 1\<rparr>" empty_db]
      membership_unique [of "\<lparr>ub_user_id = 1, ub_book_id = 1\<rparr>"
        "snd (create_user_book empty_db \<lparr>ub_user_id = 1, ub_book_id = 1\<rparr>)"]
    by (simp add: sample_db_def empty_db_def)
qed

section \<open>Listing the records of a book\<close>

text \<open>
  C10. Every record that \<open>get_records\<close> returns is a stored record of the book
  asked for; with non-negative \<open>skip\<close> and \<open>limit\<close> the result is the matching
  records without the first \<open>skip\<close>, cut to \<open>limit\<close>; and it is empty when
  \<open>skip\<close> is at least the number of matching records.
\<close>

theorem get_records_of_book:
  "(\<forall>r \<in> set (get_records d book_id skip limit).
       r_book_id r = Some book_id \<and> r \<in> set (records d))
   \<and> (0 \<le> skip \<and> 0 \<le> limit \<longrightarrow>
        get_records d book_id skip limit
          = take (nat limit) (drop (nat skip)
              (filter (\<lambda>r. r_book_id r = Some book_id) (records d))))
   \<and> (0 \<le> limit \<longrightarrow> length (get_records d book_id skip limit) \<le> nat limit)
   \<and> (int (length (filter (\<lambda>r. r_book_id r = Some book_id) (records d))) \<le> skip \<longrightarrow>
        get_records d book_id skip limit = [])"
proof -
  have "set (get_records d book_id skip limit)
      \<subseteq> set (filter (\<lambda>r. r_book_id r = Some book_id) (records d))"
    unfolding get_records_def by (rule subset_trans [OF set_limit_q set_offset_q])
  then have m: "\<forall>r \<in> set (get_records d book_id skip limit).
       r_book_id r = Some book_id \<and> r \<in> set (records d)"
    by auto
  have p: "0 \<le> skip \<and> 0 \<le> limit \<longrightarrow>
        get_records d book_id skip limit
          = take (nat limit) (drop (nat skip)
              (filter (\<lambda>r. r_book_id r = Some book_id) (records d)))"
    by (simp add: get_records_def limit_q_def offset_q_def)
  have l: "0 \<le> limit \<longrightarrow> length (get_records d book_id skip limit) \<le> nat limit"
    by (simp add: get_records_def limit_q_def offset_q_def)
  have e: "int (length (filter (\<lambda>r. r_book_id r = Some book_id) (records d))) \<le> skip \<longrightarrow>
        get_records d book_id skip limit = []"
    by (simp add: get_records_def limit_q_def offset_q_def)
  from m p l e show ?thesis by blast
qed

theorem get_records_of_book_witness:
  "get_records sample_db 1 1 10
     = [\<lparr>r_id = 3, r_amount = 70, r_note = None, r_category_id = None,
         r_book_id = Some 1, r_add_by = 2, r_add_at = 1700000120\<rparr>]
   \<and> map r_book_id (get_records sample_db 1 0 10) = [Some 1, Some 1]
   \<and> get_records sample_db 1 2 10 = []"
  using get_records_of_book [of sample_db 1 1 10] get_records_of_book [of sample_db 1 2 10]
    get_records_of_book [of sample_db 1 0 10]
  by (simp add: sample_db_def)

end
